theory Spec2Isabelle
  imports Main
begin

section \<open>JavaScript values used by the client\<close>

text \<open>
  A value of type \<open>string | null | undefined\<close> is a \<open>string option\<close>. JavaScript's
  truthiness test (\<open>if (token)\<close>, \<open>!!token\<close>, \<open>a || b\<close>) rejects \<open>null\<close>,
  \<open>undefined\<close> and the empty string.
\<close>

definition truthy :: "string option \<Rightarrow> bool" where
  "truthy v = (case v of None \<Rightarrow> False | Some s \<Rightarrow> s \<noteq> [])"

text \<open>\<open>a || d\<close> for an optional string \<open>a\<close> and a string literal \<open>d\<close>.\<close>

definition or_else :: "string option \<Rightarrow> string \<Rightarrow> string" where
  "or_else v d = (case v of None \<Rightarrow> d | Some s \<Rightarrow> if s \<noteq> [] then s else d)"

section \<open>Types (src/types/auth.ts)\<close>

record user =
  user_id :: string
  user_email :: string
  user_firstName :: "string option"
  user_lastName :: "string option"
  user_avatar :: "string option"
  user_createdAt :: string
  user_updatedAt :: string

record login_credentials =
  login_email :: string
  login_password :: string

record signup_credentials =
  signup_email :: string
  signup_password :: string
  signup_confirmPassword :: string
  signup_firstName :: "string option"
  signup_lastName :: "string option"

text \<open>\<open>AuthResponse\<close>: the optional \<open>data\<close> object with its three optional fields.\<close>

record auth_data =
  data_user :: "user option"
  data_token :: "string option"
  data_refreshToken :: "string option"

record auth_response =
  success :: bool
  message :: string
  data :: "auth_data option"

record api_error =
  err_message :: string
  err_code :: "string option"
  err_statusCode :: "int option"

record auth_state =
  user :: "user option"
  token :: "string option"
  isAuthenticated :: bool
  isLoading :: bool
  error :: "string option"

text \<open>Optional chaining: \<open>response.data?.user\<close>, \<open>response.data?.token\<close>,
  \<open>response.data?.refreshToken\<close>.\<close>

definition resp_user :: "auth_response \<Rightarrow> user option" where
  "resp_user r = (case data r of None \<Rightarrow> None | Some d \<Rightarrow> data_user d)"

definition resp_token :: "auth_response \<Rightarrow> string option" where
  "resp_token r = (case data r of None \<Rightarrow> None | Some d \<Rightarrow> data_token d)"

definition resp_refreshToken :: "auth_response \<Rightarrow> string option" where
  "resp_refreshToken r = (case data r of None \<Rightarrow> None | Some d \<Rightarrow> data_refreshToken d)"

section \<open>The browser and the network\<close>

text \<open>
  What the transport hands to the response interceptor's error handler: an error
  object with an optional \<open>message\<close> and an optional \<open>response\<close>, which has a
  numeric \<open>status\<close> and an optional body with optional \<open>message\<close> and \<open>code\<close>.
\<close>

record error_body =
  body_message :: "string option"
  body_code :: "string option"

record error_response =
  status :: int
  body :: "error_body option"

record axios_error =
  ax_message :: "string option"
  response :: "error_response option"

text \<open>
  The outcome of one remote call, chosen by the environment: the call resolves
  with a response body, or the transport rejects with an error.
\<close>

datatype 'a outcome = Resolved 'a | Rejected axios_error

datatype payload =
  NoData
| LoginData login_credentials
| SignupData signup_credentials
| RefreshData "string option"

record request =
  req_method :: string
  req_url :: string
  req_data :: payload
  req_authorization :: "string option"

record toast_msg =
  variant :: "string option"
  title :: string
  description :: string

text \<open>
  Everything the modelled code reads or writes: the React state of
  \<open>useAuthProvider\<close>, \<open>localStorage\<close>, \<open>window.location.href\<close>, the requests sent
  so far, the toasts shown so far and, for each request sent, the React state at
  the moment it went out.
\<close>

record world =
  state :: auth_state
  localStorage :: "string \<rightharpoonup> string"
  location_href :: string
  requests :: "request list"
  toasts :: "toast_msg list"
  state_at_request :: "auth_state list"

definition getItem :: "string \<Rightarrow> world \<Rightarrow> string option" where
  "getItem k w = localStorage w k"

definition setItem :: "string \<Rightarrow> string \<Rightarrow> world \<Rightarrow> world" where
  "setItem k v w = w\<lparr>localStorage := (localStorage w)(k \<mapsto> v)\<rparr>"

definition removeItem :: "string \<Rightarrow> world \<Rightarrow> world" where
  "removeItem k w = w\<lparr>localStorage := (localStorage w)(k := None)\<rparr>"

definition toast :: "toast_msg \<Rightarrow> world \<Rightarrow> world" where
  "toast t w = w\<lparr>toasts := toasts w @ [t]\<rparr>"

section \<open>ApiClient (src/services/api/client.ts)\<close>

text \<open>The request interceptor: the bearer header, when a token is stored.\<close>

definition request_interceptor :: "world \<Rightarrow> string option" where
  "request_interceptor w =
     (let token = getItem ''authToken'' w
      in if truthy token then map_option ((@) ''Bearer '') token else None)"

text \<open>\<open>error.response?.data?.message\<close>, \<open>error.response?.data?.code\<close>,
  \<open>error.response?.status\<close>.\<close>

definition response_message :: "axios_error \<Rightarrow> string option" where
  "response_message e =
     (case response e of None \<Rightarrow> None
      | Some r \<Rightarrow> (case body r of None \<Rightarrow> None | Some b \<Rightarrow> body_message b))"

definition response_code :: "axios_error \<Rightarrow> string option" where
  "response_code e =
     (case response e of None \<Rightarrow> None
      | Some r \<Rightarrow> (case body r of None \<Rightarrow> None | Some b \<Rightarrow> body_code b))"

definition response_status :: "axios_error \<Rightarrow> int option" where
  "response_status e = map_option status (response e)"

text \<open>
  The response interceptor's error handler. It builds the normalised error, runs
  the branch commented \<open>Handle 401 - Unauthorized (token expired)\<close>, whose test is
  \<open>error.response?.status === 40\<close>, and rejects with the normalised error.
\<close>

definition response_onRejected :: "axios_error \<Rightarrow> world \<Rightarrow> api_error \<times> world" where
  "response_onRejected e w =
     (let apiError =
            \<lparr>err_message =
               or_else (response_message e) (or_else (ax_message e) ''An error occurred''),
             err_code = response_code e,
             err_statusCode = response_status e\<rparr>;
          w' = (if response_status e = Some 40
                then (removeItem ''refreshToken'' (removeItem ''authToken'' w))
                       \<lparr>location_href := ''/auth/login''\<rparr>
                else w)
      in (apiError, w'))"

text \<open>
  \<open>apiClient.get\<close> and \<open>apiClient.post\<close>: the request goes out with the header of
  the request interceptor; a resolved call returns the body, a rejected one goes
  through the response interceptor and throws (\<open>Inl\<close>) the normalised error.
\<close>

definition send :: "string \<Rightarrow> string \<Rightarrow> payload \<Rightarrow> 'a outcome \<Rightarrow> world \<Rightarrow> (api_error + 'a) \<times> world" where
  "send m url d out w =
     (let w1 = w\<lparr>requests := requests w @
                  [\<lparr>req_method = m, req_url = url, req_data = d,
                    req_authorization = request_interceptor w\<rparr>],
                state_at_request := state_at_request w @ [state w]\<rparr>
      in case out of
           Resolved b \<Rightarrow> (Inr b, w1)
         | Rejected e \<Rightarrow> (case response_onRejected e w1 of (apiError, w2) \<Rightarrow> (Inl apiError, w2)))"

definition get :: "string \<Rightarrow> 'a outcome \<Rightarrow> world \<Rightarrow> (api_error + 'a) \<times> world" where
  "get url out w = send ''GET'' url NoData out w"

definition post :: "string \<Rightarrow> payload \<Rightarrow> 'a outcome \<Rightarrow> world \<Rightarrow> (api_error + 'a) \<times> world" where
  "post url d out w = send ''POST'' url d out w"

section \<open>authApi (src/services/api/auth.ts)\<close>

definition authApi_login ::
  "login_credentials \<Rightarrow> auth_response outcome \<Rightarrow> world \<Rightarrow> (api_error + auth_response) \<times> world" where
  "authApi_login credentials out w = post ''/auth/login'' (LoginData credentials) out w"

definition authApi_signup ::
  "signup_credentials \<Rightarrow> auth_response outcome \<Rightarrow> world \<Rightarrow> (api_error + auth_response) \<times> world" where
  "authApi_signup credentials out w = post ''/auth/signup'' (SignupData credentials) out w"

definition authApi_getCurrentUser :: "user outcome \<Rightarrow> world \<Rightarrow> (api_error + user) \<times> world" where
  "authApi_getCurrentUser out w = get ''/auth/me'' out w"

text \<open>\<open>logout\<close> removes the two keys only after the awaited call has resolved.\<close>

definition authApi_logout :: "unit outcome \<Rightarrow> world \<Rightarrow> (api_error + unit) \<times> world" where
  "authApi_logout out w =
     (case post ''/auth/logout'' NoData out w of
        (Inl e, w1) \<Rightarrow> (Inl e, w1)
      | (Inr _, w1) \<Rightarrow> (Inr (), removeItem ''refreshToken'' (removeItem ''authToken'' w1)))"

definition authApi_refreshToken ::
  "auth_response outcome \<Rightarrow> world \<Rightarrow> (api_error + auth_response) \<times> world" where
  "authApi_refreshToken out w =
     (let refreshToken = getItem ''refreshToken'' w
      in post ''/auth/refresh'' (RefreshData refreshToken) out w)"

section \<open>useAuthProvider (src/hooks/useAuth.ts)\<close>

definition initial_state :: auth_state where
  "initial_state =
     \<lparr>user = None, token = None, isAuthenticated = False, isLoading = True, error = None\<rparr>"

definition setLoading :: "bool \<Rightarrow> world \<Rightarrow> world" where
  "setLoading b w = w\<lparr>state := (state w)\<lparr>isLoading := b\<rparr>\<rparr>"

definition setError :: "string option \<Rightarrow> world \<Rightarrow> world" where
  "setError e w = w\<lparr>state := (state w)\<lparr>error := e\<rparr>\<rparr>"

definition clearError :: "world \<Rightarrow> world" where
  "clearError w = setError None w"

text \<open>
  \<open>setAuth\<close>: the state update with \<open>isAuthenticated: !!user && !!token\<close>, then the
  storage write guarded by \<open>if (token)\<close>.
\<close>

definition setAuth :: "user option \<Rightarrow> string option \<Rightarrow> world \<Rightarrow> world" where
  "setAuth u t w =
     (let w1 = w\<lparr>state := (state w)\<lparr>user := u, token := t,
                    isAuthenticated := (u \<noteq> None \<and> truthy t),
                    isLoading := False, error := None\<rparr>\<rparr>
      in case t of
           Some tok \<Rightarrow>
             if tok \<noteq> [] then setItem ''authToken'' tok w1
             else removeItem ''refreshToken'' (removeItem ''authToken'' w1)
         | None \<Rightarrow> removeItem ''refreshToken'' (removeItem ''authToken'' w1))"

text \<open>
  \<open>login\<close>, in the order of the source: the two updates before the awaited call
  (\<open>login_begin\<close>), the call, then one of the three branches, then the
  \<open>finally\<close> block.
\<close>

definition login_begin :: "world \<Rightarrow> world" where
  "login_begin w = setError None (setLoading True w)"

definition login :: "login_credentials \<Rightarrow> auth_response outcome \<Rightarrow> world \<Rightarrow> bool \<times> world" where
  "login credentials out w =
     (case authApi_login credentials out (login_begin w) of
        (Inr r, w1) \<Rightarrow>
          if success r \<and> resp_user r \<noteq> None \<and> truthy (resp_token r) then
            (let w2 = setAuth (resp_user r) (resp_token r) w1;
                 w3 = (case resp_refreshToken r of
                         Some rt \<Rightarrow> if rt \<noteq> [] then setItem ''refreshToken'' rt w2 else w2
                       | None \<Rightarrow> w2);
                 w4 = toast \<lparr>variant = None, title = ''Welcome back!'',
                              description = ''You have been successfully logged in.''\<rparr> w3
             in (True, setLoading False w4))
          else
            (let w2 = setError (Some (or_else (Some (message r)) ''Login failed'')) w1;
                 w3 = toast \<lparr>variant = Some ''destructive'', title = ''Login failed'',
                              description = or_else (Some (message r))
                                ''Please check your credentials and try again.''\<rparr> w2
             in (False, setLoading False w3))
      | (Inl e, w1) \<Rightarrow>
          (let errorMessage = or_else (Some (err_message e)) ''Login failed'';
               w2 = setError (Some errorMessage) w1;
               w3 = toast \<lparr>variant = Some ''destructive'', title = ''Login failed'',
                            description = errorMessage\<rparr> w2
           in (False, setLoading False w3)))"

definition signup_begin :: "world \<Rightarrow> world" where
  "signup_begin w = setError None (setLoading True w)"

definition signup :: "signup_credentials \<Rightarrow> auth_response outcome \<Rightarrow> world \<Rightarrow> bool \<times> world" where
  "signup credentials out w =
     (case authApi_signup credentials out (signup_begin w) of
        (Inr r, w1) \<Rightarrow>
          if success r then
            (let w2 = toast \<lparr>variant = None, title = ''Account created!'',
                              description = ''Please check your email to verify your account.''\<rparr> w1
             in (True, setLoading False w2))
          else
            (let w2 = setError (Some (or_else (Some (message r)) ''Signup failed'')) w1;
                 w3 = toast \<lparr>variant = Some ''destructive'', title = ''Signup failed'',
                              description = or_else (Some (message r)) ''Please try again.''\<rparr> w2
             in (False, setLoading False w3))
      | (Inl e, w1) \<Rightarrow>
          (let errorMessage = or_else (Some (err_message e)) ''Signup failed'';
               w2 = setError (Some errorMessage) w1;
               w3 = toast \<lparr>variant = Some ''destructive'', title = ''Signup failed'',
                            description = errorMessage\<rparr> w2
           in (False, setLoading False w3)))"

text \<open>
  \<open>logout\<close>: the error of the remote call is only written to the console; the
  \<open>finally\<close> block runs in both cases.
\<close>

definition logout :: "unit outcome \<Rightarrow> world \<Rightarrow> world" where
  "logout out w =
     (case authApi_logout out w of
        (_, w1) \<Rightarrow>
          toast \<lparr>variant = None, title = ''Logged out'',
                 description = ''You have been successfully logged out.''\<rparr>
            (setAuth None None w1))"

text \<open>\<open>initAuth\<close>, the effect run on mount.\<close>

definition initAuth :: "user outcome \<Rightarrow> world \<Rightarrow> world" where
  "initAuth out w =
     (let tok = getItem ''authToken'' w
      in if \<not> truthy tok then setLoading False w
         else (case authApi_getCurrentUser out w of
                 (Inr u, w1) \<Rightarrow> setLoading False (setAuth (Some u) tok w1)
               | (Inl e, w1) \<Rightarrow> setLoading False (setAuth None None w1)))"

text \<open>
  The operations of the controller, each with the outcome of its remote call, and
  a run of operations one after the other from some world.
\<close>

datatype operation =
  Rehydrate "user outcome"
| Login login_credentials "auth_response outcome"
| Signup signup_credentials "auth_response outcome"
| Logout "unit outcome"
| ClearError

fun step :: "world \<Rightarrow> operation \<Rightarrow> world" where
  "step w (Rehydrate out) = initAuth out w"
| "step w (Login c out) = snd (login c out w)"
| "step w (Signup c out) = snd (signup c out w)"
| "step w (Logout out) = logout out w"
| "step w ClearError = clearError w"

definition run :: "operation list \<Rightarrow> world \<Rightarrow> world" where
  "run ops w = foldl step w ops"

text \<open>The session invariant of the data model.\<close>

definition session_inv :: "auth_state \<Rightarrow> bool" where
  "session_inv s = (isAuthenticated s = (user s \<noteq> None \<and> token s \<noteq> None))"

section \<open>useCountdown (the hook defined after src/App.tsx)\<close>

text \<open>
  The hook's two state cells, with the number of times the line
  \<open>onComplete?.()\<close> has run. Seconds are whole numbers.
\<close>

record countdown =
  timeLeft :: int
  isRunning :: bool
  completions :: nat

definition useCountdown :: "int \<Rightarrow> countdown" where
  "useCountdown initialTime = \<lparr>timeLeft = initialTime, isRunning = False, completions = 0\<rparr>"

definition start :: "countdown \<Rightarrow> countdown" where
  "start c = c\<lparr>isRunning := True\<rparr>"

definition stop :: "countdown \<Rightarrow> countdown" where
  "stop c = c\<lparr>isRunning := False\<rparr>"

definition reset :: "int \<Rightarrow> int option \<Rightarrow> countdown \<Rightarrow> countdown" where
  "reset initialTime newTime c =
     c\<lparr>isRunning := False,
       timeLeft := (case newTime of Some t \<Rightarrow> t | None \<Rightarrow> initialTime)\<rparr>"

text \<open>The effect keeps an interval exactly while \<open>isRunning && timeLeft > 0\<close>.\<close>

definition interval_scheduled :: "countdown \<Rightarrow> bool" where
  "interval_scheduled c = (isRunning c \<and> timeLeft c > 0)"

text \<open>The interval's callback.\<close>

definition on_interval :: "countdown \<Rightarrow> countdown" where
  "on_interval c =
     (if timeLeft c \<le> 1
      then c\<lparr>isRunning := False, completions := Suc (completions c), timeLeft := 0\<rparr>
      else c\<lparr>timeLeft := timeLeft c - 1\<rparr>)"

text \<open>One second passes: the callback runs if an interval is scheduled.\<close>

definition tick :: "countdown \<Rightarrow> countdown" where
  "tick c = (if interval_scheduled c then on_interval c else c)"

text \<open>\<open>n\<close> seconds pass.\<close>

primrec ticks :: "nat \<Rightarrow> countdown \<Rightarrow> countdown" where
  "ticks 0 c = c"
| "ticks (Suc n) c = ticks n (tick c)"

section \<open>Concrete inputs\<close>

definition alice :: user where
  "alice =
     \<lparr>user_id = ''u1'', user_email = ''alice@example.com'', user_firstName = Some ''Alice'',
      user_lastName = None, user_avatar = None,
      user_createdAt = ''2024-01-01T00:00:00Z'', user_updatedAt = ''2024-01-01T00:00:00Z''\<rparr>"

definition alice_credentials :: login_credentials where
  "alice_credentials = \<lparr>login_email = ''alice@example.com'', login_password = ''Secret#123''\<rparr>"

definition alice_signup :: signup_credentials where
  "alice_signup =
     \<lparr>signup_email = ''alice@example.com'', signup_password = ''Secret#123'',
      signup_confirmPassword = ''Secret#123'', signup_firstName = Some ''Alice'',
      signup_lastName = None\<rparr>"

text \<open>A page that has just loaded, with nothing stored.\<close>

definition fresh_world :: world where
  "fresh_world =
     \<lparr>state = initial_state, localStorage = Map.empty, location_href = ''/'',
      requests = [], toasts = [],
      state_at_request = []\<rparr>"

text \<open>A page that has just loaded, with both tokens of an earlier visit stored.\<close>

definition returning_world :: world where
  "returning_world =
     \<lparr>state = initial_state,
      localStorage = [''authToken'' \<mapsto> ''tok1'', ''refreshToken'' \<mapsto> ''ref1''],
      location_href = ''/dashboard'', requests = [], toasts = [],
      state_at_request = []\<rparr>"

text \<open>A signed-in session on the dashboard.\<close>

definition signed_in_world :: world where
  "signed_in_world =
     \<lparr>state = \<lparr>user = Some alice, token = Some ''tok1'', isAuthenticated = True,
               isLoading = False, error = None\<rparr>,
      localStorage = [''authToken'' \<mapsto> ''tok1'', ''refreshToken'' \<mapsto> ''ref1''],
      location_href = ''/dashboard'', requests = [], toasts = [],
      state_at_request = []\<rparr>"

definition invalid_credentials_response :: auth_response where
  "invalid_credentials_response =
     \<lparr>success = False, message = ''Invalid credentials'', data = None\<rparr>"

definition login_response :: auth_response where
  "login_response =
     \<lparr>success = True, message = ''Login successful'',
      data = Some \<lparr>data_user = Some alice, data_token = Some ''tok2'',
                   data_refreshToken = Some ''ref2''\<rparr>\<rparr>"

definition login_response_without_refresh :: auth_response where
  "login_response_without_refresh =
     \<lparr>success = True, message = ''Login successful'',
      data = Some \<lparr>data_user = Some alice, data_token = Some ''tok2'',
                   data_refreshToken = None\<rparr>\<rparr>"

definition login_response_empty_token :: auth_response where
  "login_response_empty_token =
     \<lparr>success = True, message = ''Login successful'',
      data = Some \<lparr>data_user = Some alice, data_token = Some [],
                   data_refreshToken = None\<rparr>\<rparr>"

definition refresh_response :: auth_response where
  "refresh_response =
     \<lparr>success = True, message = ''Token refreshed'',
      data = Some \<lparr>data_user = None, data_token = Some ''tok3'',
                   data_refreshToken = Some ''ref3''\<rparr>\<rparr>"

text \<open>The server answers 401 with no body.\<close>

definition unauthorized_error :: axios_error where
  "unauthorized_error =
     \<lparr>ax_message = Some ''Request failed with status code 401'',
      response = Some \<lparr>status = 401, body = None\<rparr>\<rparr>"

definition network_error :: axios_error where
  "network_error = \<lparr>ax_message = Some ''Network Error'', response = None\<rparr>"

section \<open>Unfolding rules\<close>

lemmas storage_defs = getItem_def setItem_def removeItem_def

lemmas client_defs = get_def post_def send_def response_onRejected_def Let_def

lemmas api_defs = authApi_login_def authApi_signup_def authApi_getCurrentUser_def
  authApi_logout_def authApi_refreshToken_def

lemmas setter_defs = setLoading_def setError_def clearError_def toast_def

lemmas resp_defs = resp_user_def resp_token_def resp_refreshToken_def response_message_def
  response_code_def response_status_def

lemmas input_defs = alice_def alice_credentials_def alice_signup_def fresh_world_def
  returning_world_def signed_in_world_def invalid_credentials_response_def login_response_def
  login_response_without_refresh_def login_response_empty_token_def refresh_response_def
  unauthorized_error_def network_error_def initial_state_def

section \<open>The HTTP boundary\<close>

lemma or_else_nonempty: "d \<noteq> [] \<Longrightarrow> or_else v d \<noteq> []"
  by (simp add: or_else_def split: option.splits)

text \<open>The normalised message is never empty: the last alternative is a literal.\<close>

lemma apiError_message_nonempty: "err_message (fst (response_onRejected e w)) \<noteq> []"
  by (simp add: response_onRejected_def Let_def or_else_nonempty)

text \<open>What the error handler does to storage and location, for every error.\<close>

lemma interceptor_storage:
  "localStorage (snd (response_onRejected e w)) =
     (if response_status e = Some 40
      then (localStorage w)(''authToken'' := None, ''refreshToken'' := None)
      else localStorage w)"
  by (simp add: response_onRejected_def storage_defs Let_def)

lemma interceptor_location:
  "location_href (snd (response_onRejected e w)) =
     (if response_status e = Some 40 then ''/auth/login'' else location_href w)"
  by (simp add: response_onRejected_def storage_defs Let_def)

lemma interceptor_state: "state (snd (response_onRejected e w)) = state w"
  by (simp add: response_onRejected_def storage_defs Let_def)

lemma send_state: "state (snd (send m url d out w)) = state w"
  by (cases out) (simp_all add: send_def response_onRejected_def storage_defs Let_def)

lemma send_Resolved_storage: "localStorage (snd (send m url d (Resolved b) w)) = localStorage w"
  by (simp add: send_def Let_def)

text \<open>
  C1. Every API call that fails with the unauthorized status 401 has both storage
  keys removed and the location set to the login path by the response
  interceptor. The code does not do this: its test compares the status with 40. At
  a 401 answer received by a signed-in session with both tokens stored, the
  handler, called directly or through \<open>getCurrentUser\<close>, leaves both keys and
  the location as they were.
\<close>

theorem unauthorized_401_leaves_tokens:
  "response_status unauthorized_error = Some 401
   \<and> getItem ''authToken'' (snd (response_onRejected unauthorized_error signed_in_world)) = Some ''tok1''
   \<and> getItem ''refreshToken'' (snd (response_onRejected unauthorized_error signed_in_world)) = Some ''ref1''
   \<and> location_href (snd (response_onRejected unauthorized_error signed_in_world)) = ''/dashboard''
   \<and> getItem ''authToken'' (snd (authApi_getCurrentUser (Rejected unauthorized_error) signed_in_world)) = Some ''tok1''
   \<and> getItem ''refreshToken'' (snd (authApi_getCurrentUser (Rejected unauthorized_error) signed_in_world)) = Some ''ref1''
   \<and> location_href (snd (authApi_getCurrentUser (Rejected unauthorized_error) signed_in_world)) = ''/dashboard''"
proof -
  have st: "response_status unauthorized_error = Some 401"
    by (simp add: response_status_def unauthorized_error_def)
  have direct: "localStorage (snd (response_onRejected unauthorized_error w)) = localStorage w
      \<and> location_href (snd (response_onRejected unauthorized_error w)) = location_href w" for w
    by (simp add: interceptor_storage interceptor_location st)
  have through: "localStorage (snd (authApi_getCurrentUser (Rejected unauthorized_error) w)) = localStorage w
      \<and> location_href (snd (authApi_getCurrentUser (Rejected unauthorized_error) w)) = location_href w" for w
    by (simp add: authApi_getCurrentUser_def get_def send_def response_onRejected_def Let_def
        st split: prod.splits)
  show ?thesis
    by (simp add: st direct through getItem_def signed_in_world_def)
qed

section \<open>The session invariant\<close>

lemma setAuth_state:
  "state (setAuth u t w) =
     \<lparr>user = u, token = t, isAuthenticated = (u \<noteq> None \<and> truthy t),
      isLoading = False, error = None\<rparr>"
  by (simp add: setAuth_def storage_defs Let_def split: option.splits)

lemma setAuth_absent_storage:
  "\<not> truthy t \<Longrightarrow>
   getItem ''authToken'' (setAuth u t w) = None \<and> getItem ''refreshToken'' (setAuth u t w) = None"
  by (simp add: setAuth_def truthy_def storage_defs Let_def split: option.splits)

text \<open>\<open>setAuth\<close> establishes the invariant unless it is given the empty token.\<close>

lemma session_inv_setAuth: "t \<noteq> Some [] \<Longrightarrow> session_inv (state (setAuth u t w))"
  by (cases t) (simp_all add: session_inv_def setAuth_state truthy_def)

lemma session_inv_initAuth: "session_inv (state w) \<Longrightarrow> session_inv (state (initAuth out w))"
proof (cases "truthy (getItem ''authToken'' w)")
  case False
  assume "session_inv (state w)"
  with False show ?thesis
    by (simp add: initAuth_def setLoading_def session_inv_def)
next
  case True
  then have tok: "getItem ''authToken'' w \<noteq> Some []"
    by (auto simp: truthy_def)
  have "session_inv (state (setAuth u t w'))
        \<Longrightarrow> session_inv (state (setLoading False (setAuth u t w')))" for u t w'
    by (simp add: setLoading_def session_inv_def)
  with True tok show ?thesis
    by (auto simp: initAuth_def Let_def session_inv_setAuth split: prod.splits sum.splits)
qed

lemma session_inv_login: "session_inv (state w) \<Longrightarrow> session_inv (state (snd (login c out w)))"
  by (auto simp: session_inv_def login_def login_begin_def setAuth_def truthy_def storage_defs
      client_defs api_defs setter_defs split: option.splits outcome.splits)

lemma session_inv_signup: "session_inv (state w) \<Longrightarrow> session_inv (state (snd (signup c out w)))"
  by (auto simp: session_inv_def signup_def signup_begin_def storage_defs client_defs api_defs
      setter_defs split: outcome.splits)

lemma logout_state:
  "state (logout out w) =
     \<lparr>user = None, token = None, isAuthenticated = False, isLoading = False, error = None\<rparr>"
  by (simp add: logout_def toast_def setAuth_state split: prod.splits)

lemma logout_storage:
  "getItem ''authToken'' (logout out w) = None \<and> getItem ''refreshToken'' (logout out w) = None"
proof -
  have "getItem k (toast m w') = getItem k w'" for k m w'
    by (simp add: toast_def getItem_def)
  then show ?thesis
    by (simp add: logout_def setAuth_absent_storage truthy_def split: prod.splits)
qed

lemma session_inv_step: "session_inv (state w) \<Longrightarrow> session_inv (state (step w x))"
proof (cases x)
  case (Rehydrate out)
  assume "session_inv (state w)"
  with Rehydrate show ?thesis by (simp add: session_inv_initAuth)
next
  case (Login c out)
  assume "session_inv (state w)"
  with Login show ?thesis by (simp add: session_inv_login)
next
  case (Signup c out)
  assume "session_inv (state w)"
  with Signup show ?thesis by (simp add: session_inv_signup)
next
  case (Logout out)
  then show ?thesis by (simp add: logout_state session_inv_def)
next
  case ClearError
  assume "session_inv (state w)"
  with ClearError show ?thesis by (simp add: clearError_def setError_def session_inv_def)
qed

lemma session_inv_run: "session_inv (state w) \<Longrightarrow> session_inv (state (run ops w))"
  unfolding run_def
  by (induction ops arbitrary: w) (simp_all add: session_inv_step)

text \<open>
  C2. From the initial state, after every sequence of rehydration, login, signup,
  logout and clearError, whatever the outcomes of the remote calls and whatever is
  stored, \<open>isAuthenticated\<close> is true if and only if both \<open>user\<close> and \<open>token\<close>
  are non-null.
\<close>

theorem session_invariant_all_runs:
  "state w = initial_state \<Longrightarrow> session_inv (state (run ops w))"
  by (rule session_inv_run) (simp add: session_inv_def initial_state_def)

theorem session_invariant_all_runs_witness:
  "state returning_world = initial_state
   \<and> session_inv (state (run [Rehydrate (Rejected unauthorized_error),
                               Login alice_credentials (Resolved invalid_credentials_response),
                               Login alice_credentials (Resolved login_response),
                               ClearError,
                               Logout (Rejected network_error)] returning_world))"
  using session_invariant_all_runs [of returning_world
      "[Rehydrate (Rejected unauthorized_error),
        Login alice_credentials (Resolved invalid_credentials_response),
        Login alice_credentials (Resolved login_response),
        ClearError,
        Logout (Rejected network_error)]"]
  by (simp add: returning_world_def)

text \<open>
  C3. After \<open>logout\<close>, whether the remote call resolved or threw, both persisted
  tokens are absent from storage and the session is the anonymous one: user null,
  token null, not authenticated, no error, not loading.
\<close>

theorem logout_clears_session_and_storage:
  "getItem ''authToken'' (logout out w) = None
   \<and> getItem ''refreshToken'' (logout out w) = None
   \<and> state (logout out w) =
       \<lparr>user = None, token = None, isAuthenticated = False, isLoading = False, error = None\<rparr>"
  by (simp add: logout_storage logout_state)

section \<open>login and signup\<close>

text \<open>
  C4 as the specification states it fails in two places. A response with
  \<open>success\<close>, a user and the empty string as token has a non-null user and
  token, yet \<open>login\<close> returns false, because the guard tests truthiness. And
  a failed login from a signed-in session leaves the user and token of that session
  in place: the failure branches only set \<open>error\<close>.
\<close>

theorem login_claim_counterexample:
  "success login_response_empty_token
   \<and> resp_user login_response_empty_token \<noteq> None
   \<and> resp_token login_response_empty_token \<noteq> None
   \<and> \<not> fst (login alice_credentials (Resolved login_response_empty_token) fresh_world)
   \<and> \<not> fst (login alice_credentials (Resolved invalid_credentials_response) signed_in_world)
   \<and> user (state (snd (login alice_credentials (Resolved invalid_credentials_response)
                         signed_in_world))) = Some alice
   \<and> token (state (snd (login alice_credentials (Resolved invalid_credentials_response)
                          signed_in_world))) = Some ''tok1''"
  by (simp add: login_def login_begin_def truthy_def or_else_def storage_defs client_defs
      api_defs setter_defs input_defs resp_defs)

text \<open>
  C4 (amended). \<open>login\<close> returns true exactly when the call resolves with a
  response that has \<open>success\<close> true, a non-null user and a non-empty token; the
  session is then replaced wholesale (that user and token, authenticated, not
  loading, no error) and \<open>authToken\<close> is persisted. On every other outcome it
  returns false, sets \<open>error\<close> to the response's message, or \<open>Login failed\<close>
  when that is empty, respectively to the message of the thrown error, clears
  loading, and leaves \<open>user\<close>, \<open>token\<close> and \<open>isAuthenticated\<close> as they were
  before the call.
\<close>

theorem login_result:
  "(case out of
      Resolved r \<Rightarrow>
        if success r \<and> resp_user r \<noteq> None \<and> truthy (resp_token r)
        then fst (login c out w)
           \<and> state (snd (login c out w)) =
               \<lparr>user = resp_user r, token = resp_token r, isAuthenticated = True,
                isLoading = False, error = None\<rparr>
           \<and> getItem ''authToken'' (snd (login c out w)) = resp_token r
        else \<not> fst (login c out w)
           \<and> state (snd (login c out w)) =
               (state w)\<lparr>isLoading := False,
                         error := Some (or_else (Some (message r)) ''Login failed'')\<rparr>
    | Rejected e \<Rightarrow>
        \<not> fst (login c out w)
        \<and> state (snd (login c out w)) =
            (state w)\<lparr>isLoading := False,
                      error := Some (or_else (response_message e)
                                       (or_else (ax_message e) ''An error occurred''))\<rparr>)"
proof (cases out)
  case (Resolved r)
  show ?thesis
  proof (cases "success r \<and> resp_user r \<noteq> None \<and> truthy (resp_token r)")
    case True
    then show ?thesis using Resolved
      by (auto simp: login_def login_begin_def truthy_def setAuth_def storage_defs client_defs
          api_defs setter_defs split: option.splits if_splits)
  next
    case False
    then show ?thesis using Resolved
      by (auto simp: login_def login_begin_def storage_defs client_defs api_defs setter_defs)
  qed
next
  case (Rejected e)
  let ?m = "or_else (response_message e) (or_else (ax_message e) ''An error occurred'')"
  have "?m \<noteq> []"
    by (simp add: or_else_nonempty)
  then have "or_else (Some ?m) ''Login failed'' = ?m"
    by (simp add: or_else_def)
  then show ?thesis using Rejected
    by (simp add: login_def login_begin_def storage_defs client_defs api_defs setter_defs)
qed

theorem login_result_witness:
  "fst (login alice_credentials (Resolved login_response) fresh_world)
   \<and> state (snd (login alice_credentials (Resolved login_response) fresh_world)) =
       \<lparr>user = Some alice, token = Some ''tok2'', isAuthenticated = True,
        isLoading = False, error = None\<rparr>
   \<and> getItem ''authToken'' (snd (login alice_credentials (Resolved login_response) fresh_world))
       = Some ''tok2''
   \<and> \<not> fst (login alice_credentials (Resolved invalid_credentials_response) fresh_world)
   \<and> state (snd (login alice_credentials (Resolved invalid_credentials_response) fresh_world)) =
       \<lparr>user = None, token = None, isAuthenticated = False, isLoading = False,
        error = Some ''Invalid credentials''\<rparr>
   \<and> \<not> fst (login alice_credentials (Rejected network_error) fresh_world)
   \<and> error (state (snd (login alice_credentials (Rejected network_error) fresh_world))) =
       Some ''Network Error''"
  using login_result [where out = "Resolved login_response" and c = alice_credentials
        and w = fresh_world]
    login_result [where out = "Resolved invalid_credentials_response" and c = alice_credentials
        and w = fresh_world]
    login_result [where out = "Rejected network_error" and c = alice_credentials
        and w = fresh_world]
  by (simp add: truthy_def or_else_def input_defs resp_defs)

text \<open>
  C5. For every call of \<open>login\<close> and of \<open>signup\<close> and every outcome of the remote
  call: the function sends exactly one request, \<open>isLoading\<close> is true in the state
  in which that request goes out (no request has gone out before the flag is
  set), it is still true when the remote call comes back, and it is false when
  the function returns.
\<close>

theorem loading_flag_discipline:
  "isLoading (state (login_begin w)) \<and> requests (login_begin w) = requests w
   \<and> isLoading (state (snd (authApi_login c out (login_begin w))))
   \<and> length (requests (snd (authApi_login c out (login_begin w)))) = Suc (length (requests w))
   \<and> \<not> isLoading (state (snd (login c out w)))
   \<and> isLoading (state (signup_begin w)) \<and> requests (signup_begin w) = requests w
   \<and> isLoading (state (snd (authApi_signup c' out (signup_begin w))))
   \<and> length (requests (snd (authApi_signup c' out (signup_begin w)))) = Suc (length (requests w))
   \<and> \<not> isLoading (state (snd (signup c' out w)))
   \<and> requests (snd (login c out w)) =
       requests w @ [\<lparr>req_method = ''POST'', req_url = ''/auth/login'', req_data = LoginData c,
                      req_authorization = request_interceptor w\<rparr>]
   \<and> map isLoading (state_at_request (snd (login c out w))) =
       map isLoading (state_at_request w) @ [True]
   \<and> requests (snd (signup c' out w)) =
       requests w @ [\<lparr>req_method = ''POST'', req_url = ''/auth/signup'', req_data = SignupData c',
                      req_authorization = request_interceptor w\<rparr>]
   \<and> map isLoading (state_at_request (snd (signup c' out w))) =
       map isLoading (state_at_request w) @ [True]"
proof -
  have before: "isLoading (state (login_begin w)) \<and> requests (login_begin w) = requests w
      \<and> isLoading (state (signup_begin w)) \<and> requests (signup_begin w) = requests w"
    by (simp add: login_begin_def signup_begin_def setLoading_def setError_def)
  have flight: "isLoading (state (snd (send m url d out w'))) = isLoading (state w')
      \<and> length (requests (snd (send m url d out w'))) = Suc (length (requests w'))"
    for m url d and out :: "auth_response outcome" and w'
    by (cases out) (simp_all add: send_def response_onRejected_def storage_defs Let_def)
  have settle_login: "\<not> isLoading (state (snd (login c out w)))"
    by (simp add: login_def setLoading_def Let_def split: prod.splits sum.splits)
  have settle_signup: "\<not> isLoading (state (snd (signup c' out w)))"
    by (simp add: signup_def setLoading_def Let_def split: prod.splits sum.splits)
  have sent_login: "requests (snd (login c out w)) =
       requests w @ [\<lparr>req_method = ''POST'', req_url = ''/auth/login'', req_data = LoginData c,
                      req_authorization = request_interceptor w\<rparr>]
      \<and> map isLoading (state_at_request (snd (login c out w))) =
          map isLoading (state_at_request w) @ [True]"
    by (cases out)
      (auto simp: login_def login_begin_def setAuth_def request_interceptor_def storage_defs
        client_defs api_defs setter_defs split: option.splits)
  have sent_signup: "requests (snd (signup c' out w)) =
       requests w @ [\<lparr>req_method = ''POST'', req_url = ''/auth/signup'', req_data = SignupData c',
                      req_authorization = request_interceptor w\<rparr>]
      \<and> map isLoading (state_at_request (snd (signup c' out w))) =
          map isLoading (state_at_request w) @ [True]"
    by (cases out)
      (auto simp: signup_def signup_begin_def request_interceptor_def storage_defs
        client_defs api_defs setter_defs)
  show ?thesis
    using before settle_login settle_signup sent_login sent_signup
    by (simp add: authApi_login_def authApi_signup_def post_def flight)
qed

theorem loading_flag_discipline_witness:
  "map isLoading (state_at_request
      (snd (login alice_credentials (Rejected network_error) signed_in_world))) = [True]
   \<and> \<not> isLoading (state (snd (login alice_credentials (Rejected network_error) signed_in_world)))
   \<and> map isLoading (state_at_request
      (snd (signup alice_signup (Resolved invalid_credentials_response) signed_in_world))) = [True]
   \<and> \<not> isLoading (state (snd (signup alice_signup (Resolved invalid_credentials_response)
                                  signed_in_world)))"
  using loading_flag_discipline [where w = signed_in_world and c = alice_credentials
      and c' = alice_signup and out = "Rejected network_error"]
    loading_flag_discipline [where w = signed_in_world and c = alice_credentials
      and c' = alice_signup and out = "Resolved invalid_credentials_response"]
  by (simp add: signed_in_world_def)

section \<open>Startup rehydration\<close>

text \<open>
  C6. Rehydration with no access token in storage sends no request, leaves storage
  alone, and leaves the session anonymous with \<open>isLoading\<close> false.
\<close>

theorem rehydrate_without_token:
  assumes "getItem ''authToken'' w = None" and "state w = initial_state"
  shows "requests (initAuth out w) = requests w
     \<and> localStorage (initAuth out w) = localStorage w
     \<and> state (initAuth out w) =
         \<lparr>user = None, token = None, isAuthenticated = False, isLoading = False, error = None\<rparr>"
  using assms by (simp add: initAuth_def truthy_def setLoading_def initial_state_def)

theorem rehydrate_without_token_witness:
  "getItem ''authToken'' fresh_world = None \<and> state fresh_world = initial_state
   \<and> requests (initAuth (Resolved alice) fresh_world) = []
   \<and> state (initAuth (Resolved alice) fresh_world) =
       \<lparr>user = None, token = None, isAuthenticated = False, isLoading = False, error = None\<rparr>"
  using rehydrate_without_token [where w = fresh_world and out = "Resolved alice"]
  by (simp add: fresh_world_def getItem_def)

text \<open>
  C7. Rehydration with a stored access token: when fetching the current user
  fails, the session is cleared to anonymous and both stored tokens are removed;
  when it succeeds, the session is authenticated with the fetched user and the
  stored token. (An empty string under \<open>authToken\<close> counts as no token: the guard
  is \<open>if (!token)\<close>.)
\<close>

theorem rehydrate_with_token:
  assumes "getItem ''authToken'' w = Some t" and "t \<noteq> []"
  shows "state (initAuth (Rejected e) w) =
         \<lparr>user = None, token = None, isAuthenticated = False, isLoading = False, error = None\<rparr>
     \<and> getItem ''authToken'' (initAuth (Rejected e) w) = None
     \<and> getItem ''refreshToken'' (initAuth (Rejected e) w) = None
     \<and> state (initAuth (Resolved u) w) =
         \<lparr>user = Some u, token = Some t, isAuthenticated = True, isLoading = False, error = None\<rparr>
     \<and> getItem ''authToken'' (initAuth (Resolved u) w) = Some t
     \<and> requests (initAuth (Resolved u) w) =
         requests w @ [\<lparr>req_method = ''GET'', req_url = ''/auth/me'', req_data = NoData,
                        req_authorization = Some (''Bearer '' @ t)\<rparr>]"
proof -
  have tr: "truthy (getItem ''authToken'' w)"
    using assms by (simp add: truthy_def)
  have rejected: "initAuth (Rejected e) w =
      setLoading False (setAuth None None (snd (authApi_getCurrentUser (Rejected e) w)))"
    using tr by (simp add: initAuth_def Let_def authApi_getCurrentUser_def get_def send_def
        split: prod.splits)
  have resolved: "initAuth (Resolved u) w =
      setLoading False (setAuth (Some u) (Some t) (snd (authApi_getCurrentUser (Resolved u) w)))"
    using tr assms by (simp add: initAuth_def Let_def authApi_getCurrentUser_def get_def send_def)
  have loading: "state (setLoading False (setAuth a b w')) = state (setAuth a b w')
      \<and> getItem k (setLoading False w') = getItem k w'" for a b k w'
    by (simp add: setLoading_def setAuth_state getItem_def)
  have sent: "requests (initAuth (Resolved u) w) =
      requests w @ [\<lparr>req_method = ''GET'', req_url = ''/auth/me'', req_data = NoData,
                     req_authorization = Some (''Bearer '' @ t)\<rparr>]"
    using assms tr
    by (simp add: resolved setLoading_def setAuth_def storage_defs authApi_getCurrentUser_def
        get_def send_def request_interceptor_def Let_def)
  have kept: "getItem ''authToken'' (initAuth (Resolved u) w) = Some t"
    using assms by (simp add: resolved setLoading_def setAuth_def storage_defs)
  show ?thesis
    using assms sent kept
    by (simp add: rejected resolved loading setAuth_state setAuth_absent_storage truthy_def)
qed

theorem rehydrate_with_token_witness:
  "getItem ''authToken'' returning_world = Some ''tok1'' \<and> ''tok1'' \<noteq> []
   \<and> state (initAuth (Rejected unauthorized_error) returning_world) =
       \<lparr>user = None, token = None, isAuthenticated = False, isLoading = False, error = None\<rparr>
   \<and> getItem ''authToken'' (initAuth (Rejected unauthorized_error) returning_world) = None
   \<and> getItem ''refreshToken'' (initAuth (Rejected unauthorized_error) returning_world) = None
   \<and> state (initAuth (Resolved alice) returning_world) =
       \<lparr>user = Some alice, token = Some ''tok1'', isAuthenticated = True, isLoading = False,
        error = None\<rparr>"
  using rehydrate_with_token [where w = returning_world and t = "''tok1''"
      and e = unauthorized_error and u = alice]
  by (simp add: returning_world_def getItem_def)

section \<open>The lifecycle of the persisted tokens\<close>

text \<open>
  C9 as the specification states it fails on login and on refresh. A successful
  login whose response carries no refresh token writes \<open>authToken\<close> alone; and
  \<open>authApi.refreshToken\<close> only posts the stored refresh token and returns the
  response, so after a successful refresh the stored pair is the old one.
\<close>

theorem token_lifecycle_counterexample:
  "fst (login alice_credentials (Resolved login_response_without_refresh) fresh_world)
   \<and> getItem ''authToken''
        (snd (login alice_credentials (Resolved login_response_without_refresh) fresh_world))
       = Some ''tok2''
   \<and> getItem ''refreshToken''
        (snd (login alice_credentials (Resolved login_response_without_refresh) fresh_world))
       = None
   \<and> fst (authApi_refreshToken (Resolved refresh_response) signed_in_world)
       = Inr refresh_response
   \<and> resp_token refresh_response = Some ''tok3''
   \<and> resp_refreshToken refresh_response = Some ''ref3''
   \<and> getItem ''authToken'' (snd (authApi_refreshToken (Resolved refresh_response) signed_in_world))
       = Some ''tok1''
   \<and> getItem ''refreshToken'' (snd (authApi_refreshToken (Resolved refresh_response) signed_in_world))
       = Some ''ref1''"
  by (simp add: login_def login_begin_def truthy_def setAuth_def storage_defs client_defs
      api_defs setter_defs input_defs resp_defs)

lemma login_success_storage:
  assumes "success r" and "resp_user r \<noteq> None" and "truthy (resp_token r)"
  shows "getItem ''authToken'' (snd (login c (Resolved r) w)) = resp_token r"
    and "getItem ''refreshToken'' (snd (login c (Resolved r) w)) =
           (if truthy (resp_refreshToken r) then resp_refreshToken r
            else getItem ''refreshToken'' w)"
  using assms
  by (auto simp: login_def login_begin_def truthy_def setAuth_def storage_defs client_defs
      api_defs setter_defs split: option.splits if_splits)

text \<open>
  C9 (amended). A successful login always writes the access token; it writes the
  refresh token as well exactly when the response carries a non-empty one, and
  otherwise leaves the stored refresh token as it was. A refresh call that resolves
  writes nothing to storage. Logout removes both tokens together.
\<close>

theorem token_lifecycle:
  "(success r \<and> resp_user r \<noteq> None \<and> truthy (resp_token r) \<longrightarrow>
      getItem ''authToken'' (snd (login c (Resolved r) w)) = resp_token r
    \<and> getItem ''refreshToken'' (snd (login c (Resolved r) w)) =
        (if truthy (resp_refreshToken r) then resp_refreshToken r
         else getItem ''refreshToken'' w))
   \<and> localStorage (snd (authApi_refreshToken (Resolved r') w)) = localStorage w
   \<and> getItem ''authToken'' (logout out w) = None
   \<and> getItem ''refreshToken'' (logout out w) = None"
proof -
  have refresh: "localStorage (snd (authApi_refreshToken (Resolved r') w)) = localStorage w"
    by (simp add: authApi_refreshToken_def post_def send_Resolved_storage Let_def)
  show ?thesis
    using login_success_storage [of r c w] refresh logout_storage [of out w]
    by simp
qed

theorem token_lifecycle_witness:
  "success login_response \<and> resp_user login_response \<noteq> None
   \<and> truthy (resp_token login_response)
   \<and> getItem ''authToken'' (snd (login alice_credentials (Resolved login_response) fresh_world))
       = Some ''tok2''
   \<and> getItem ''refreshToken'' (snd (login alice_credentials (Resolved login_response) fresh_world))
       = Some ''ref2''
   \<and> localStorage (snd (authApi_refreshToken (Resolved refresh_response) signed_in_world))
       = localStorage signed_in_world
   \<and> getItem ''authToken'' (logout (Rejected network_error) signed_in_world) = None
   \<and> getItem ''refreshToken'' (logout (Rejected network_error) signed_in_world) = None"
  using token_lifecycle [where r = login_response and c = alice_credentials
      and w = fresh_world and out = "Rejected network_error"]
    token_lifecycle [where r = login_response and r' = refresh_response
      and w = signed_in_world and out = "Rejected network_error"]
  by (simp add: truthy_def login_response_def alice_def resp_defs)

section \<open>The countdown\<close>

lemma ticks_idle: "\<not> interval_scheduled c \<Longrightarrow> ticks n c = c"
  by (induction n) (simp_all add: tick_def)

text \<open>
  A running countdown with \<open>n + 1\<close> seconds left reaches zero after exactly
  \<open>n + 1\<close> ticks, stops, and has run the completion callback once more.
\<close>

lemma ticks_to_zero:
  "isRunning c \<Longrightarrow> timeLeft c = int (Suc n) \<Longrightarrow>
   ticks (Suc n) c = c\<lparr>isRunning := False, completions := Suc (completions c), timeLeft := 0\<rparr>"
proof (induction n arbitrary: c)
  case 0
  then show ?case by (simp add: tick_def interval_scheduled_def on_interval_def)
next
  case (Suc n)
  have "tick c = c\<lparr>timeLeft := int (Suc n)\<rparr>"
    using Suc.prems by (simp add: tick_def interval_scheduled_def on_interval_def)
  then have "ticks (Suc (Suc n)) c = ticks (Suc n) (c\<lparr>timeLeft := int (Suc n)\<rparr>)"
    by simp
  also have "\<dots> = c\<lparr>isRunning := False, completions := Suc (completions c), timeLeft := 0\<rparr>"
    using Suc.IH [of "c\<lparr>timeLeft := int (Suc n)\<rparr>"] Suc.prems by simp
  finally show ?case .
qed

lemma tick_nonneg: "0 \<le> timeLeft c \<Longrightarrow> 0 \<le> timeLeft (tick c)"
  by (simp add: tick_def interval_scheduled_def on_interval_def)

lemma ticks_nonneg: "0 \<le> timeLeft c \<Longrightarrow> 0 \<le> timeLeft (ticks n c)"
  by (induction n arbitrary: c) (simp_all add: tick_nonneg)

lemma run_of_300_ticks:
  "ticks 300 (start (useCountdown 300)) = \<lparr>timeLeft = 0, isRunning = False, completions = 1\<rparr>"
  using ticks_to_zero [of "start (useCountdown 300)" 299]
  by (simp add: start_def useCountdown_def)

lemma start_at_zero_idle: "timeLeft c = 0 \<Longrightarrow> ticks n (start c) = start c"
  by (rule ticks_idle) (simp add: interval_scheduled_def start_def)

text \<open>
  C8. A countdown constructed with \<open>initialTime = 300\<close> and started has, after 300
  ticks, \<open>timeLeft = 0\<close>, \<open>isRunning = False\<close>, and the completion callback has
  run exactly once; after \<open>start\<close> is called again, however many seconds pass,
  \<open>timeLeft\<close> stays 0 and the callback has still run once. In general \<open>start\<close> at
  \<open>timeLeft = 0\<close> never changes \<open>timeLeft\<close>, and no tick takes a non-negative
  \<open>timeLeft\<close> below zero.
\<close>

theorem countdown_300_completes_once:
  "timeLeft (ticks 300 (start (useCountdown 300))) = 0
   \<and> \<not> isRunning (ticks 300 (start (useCountdown 300)))
   \<and> completions (ticks 300 (start (useCountdown 300))) = 1
   \<and> timeLeft (ticks n (start (ticks 300 (start (useCountdown 300))))) = 0
   \<and> completions (ticks n (start (ticks 300 (start (useCountdown 300))))) = 1
   \<and> (timeLeft c = 0 \<longrightarrow> timeLeft (ticks n (start c)) = 0)
   \<and> (0 \<le> timeLeft c \<longrightarrow> 0 \<le> timeLeft (tick c) \<and> 0 \<le> timeLeft (ticks n c))"
proof -
  let ?fin = "\<lparr>timeLeft = 0, isRunning = False, completions = 1\<rparr>"
  have again: "timeLeft d = 0 \<Longrightarrow> timeLeft (ticks n (start d)) = 0" for d
    using start_at_zero_idle [of d n] by (simp add: start_def)
  have once: "completions (ticks n (start ?fin)) = 1"
    using start_at_zero_idle [of ?fin n] by (simp add: start_def)
  show ?thesis
    using once by (simp add: run_of_300_ticks again tick_nonneg ticks_nonneg)
qed

theorem countdown_300_completes_once_witness:
  "timeLeft (useCountdown 0) = 0
   \<and> timeLeft (ticks 5 (start (useCountdown 0))) = 0
   \<and> 0 \<le> timeLeft (useCountdown 2)
   \<and> 0 \<le> timeLeft (tick (useCountdown 2))
   \<and> 0 \<le> timeLeft (ticks 5 (useCountdown 2))
   \<and> completions (ticks 5 (start (ticks 300 (start (useCountdown 300))))) = 1"
  using countdown_300_completes_once [of 5 "useCountdown 0"]
    countdown_300_completes_once [of 5 "useCountdown 2"]
  by (simp add: useCountdown_def)

text \<open>
  C10. After the countdown has completed (\<open>timeLeft = 0\<close>, not running),
  \<open>start\<close> sets \<open>isRunning\<close> to true while no interval is scheduled; so however
  many seconds pass, nothing changes: \<open>timeLeft\<close> stays 0 and \<open>isRunning\<close> stays
  true, until \<open>stop\<close> or \<open>reset\<close> sets it to false.
\<close>

theorem start_after_completion_runs_without_ticking:
  assumes "timeLeft c = 0" and "\<not> isRunning c"
  shows "isRunning (start c) \<and> \<not> interval_scheduled (start c)
     \<and> ticks n (start c) = start c
     \<and> timeLeft (ticks n (start c)) = 0 \<and> isRunning (ticks n (start c))
     \<and> \<not> isRunning (stop (ticks n (start c)))
     \<and> \<not> isRunning (reset initialTime newTime (ticks n (start c)))"
proof -
  have idle: "ticks n (start c) = start c"
    using assms(1) by (rule start_at_zero_idle)
  have idle_after: "\<not> interval_scheduled (start c)"
    using assms(1) by (simp add: interval_scheduled_def start_def)
  have flags: "isRunning (start c) \<and> timeLeft (start c) = 0
      \<and> \<not> isRunning (stop (start c)) \<and> \<not> isRunning (reset initialTime newTime (start c))"
    using assms(1) by (simp add: start_def stop_def reset_def)
  show ?thesis
    unfolding idle using idle_after flags by simp
qed

theorem start_after_completion_runs_without_ticking_witness:
  "timeLeft (ticks 300 (start (useCountdown 300))) = 0
   \<and> \<not> isRunning (ticks 300 (start (useCountdown 300)))
   \<and> isRunning (start (ticks 300 (start (useCountdown 300))))
   \<and> \<not> interval_scheduled (start (ticks 300 (start (useCountdown 300))))
   \<and> ticks 60 (start (ticks 300 (start (useCountdown 300))))
       = start (ticks 300 (start (useCountdown 300)))
   \<and> \<not> isRunning (stop (ticks 60 (start (ticks 300 (start (useCountdown 300))))))
   \<and> \<not> isRunning (reset 300 None (ticks 60 (start (ticks 300 (start (useCountdown 300))))))"
proof -
  have fin: "timeLeft (ticks 300 (start (useCountdown 300))) = 0
      \<and> \<not> isRunning (ticks 300 (start (useCountdown 300)))"
    by (simp add: run_of_300_ticks)
  then show ?thesis
    using start_after_completion_runs_without_ticking
      [of "ticks 300 (start (useCountdown 300))" 60 300 None]
    by (simp add: stop_def reset_def)
qed

end
